theory Spec2Isabelle
  imports Complex_Main "HOL-Library.AList"
begin

section \<open>The credit scoring evaluator of backend/prediction_helper.py\<close>

text \<open>
  The evaluator maps the eleven applicant attributes to a triple
  (default probability, credit score, rating). It asks a trained classifier when one was
  loaded and falls back to a threshold heuristic otherwise, or when the classifier fails.

  Numbers. The numeric attributes are Python numbers; they are read here as the real
  numbers they denote, \<open>/\<close> is exact division and \<open>int(...)\<close> is truncation towards
  zero. The heuristic's \<open>risk_score\<close> is a Python int and stays an \<open>int\<close>.
\<close>

subsection \<open>Data\<close>

datatype py_error =
    ZeroDivisionError
  | KeyError string
  | ValueError
  | ModelError

text \<open>The rating strings returned by the code, \<open>'Undefined'\<close> included.\<close>

datatype rating = Poor | Average | Good | Excellent | Undefined

text \<open>
  The dictionary built by \<open>prepare_input\<close>: a dict literal with twelve fixed keys, one
  field per key.
\<close>

record input_data =
  age :: real
  income :: real
  loan_amount :: real
  loan_tenure_months :: real
  avg_dpd_per_delinquency :: real
  delinquency_ratio :: real
  credit_utilization_ratio :: real
  num_open_accounts :: real
  loan_to_income :: real
  residence_type :: string
  loan_purpose :: string
  loan_type :: string

type_synonym scoring_result = "real \<times> int \<times> rating"

subsection \<open>Python arithmetic\<close>

text \<open>True division raises on a zero divisor.\<close>

definition py_truediv :: "real \<Rightarrow> real \<Rightarrow> py_error + real" where
  "py_truediv x y = (if y = 0 then Inl ZeroDivisionError else Inr (x / y))"

text \<open>\<open>int(x)\<close> on a float truncates towards zero.\<close>

definition py_int :: "real \<Rightarrow> int" where
  "py_int x = (if 0 \<le> x then \<lfloor>x\<rfloor> else \<lceil>x\<rceil>)"

subsection \<open>prepare_input\<close>

text \<open>
  The conditional expression \<open>loan_amount / income if income > 0 else 0\<close> evaluates the
  division only when the test holds.
\<close>

definition guarded_ratio :: "real \<Rightarrow> real \<Rightarrow> py_error + real" where
  "guarded_ratio la inc = (if inc > 0 then py_truediv la inc else Inr 0)"

definition prepare_input ::
  "real \<Rightarrow> real \<Rightarrow> real \<Rightarrow> real \<Rightarrow> real \<Rightarrow> real \<Rightarrow> real \<Rightarrow> real \<Rightarrow>
   string \<Rightarrow> string \<Rightarrow> string \<Rightarrow> py_error + input_data" where
  "prepare_input ag inc la ten dpd dr cu noa res pur lt =
     (case guarded_ratio la inc of
        Inl e \<Rightarrow> Inl e
      | Inr ratio \<Rightarrow>
          Inr \<lparr> age = ag, income = inc, loan_amount = la, loan_tenure_months = ten,
                avg_dpd_per_delinquency = dpd, delinquency_ratio = dr,
                credit_utilization_ratio = cu, num_open_accounts = noa,
                loan_to_income = ratio, residence_type = res, loan_purpose = pur,
                loan_type = lt \<rparr>)"

subsection \<open>calculate_credit_score\<close>

text \<open>
  The local variable \<open>risk_score\<close> as it stands after the last \<open>+=\<close>: it starts at 0 and
  each \<open>if\<close>/\<open>elif\<close> chain adds to it in turn.
\<close>

definition risk_score :: "input_data \<Rightarrow> int" where
  "risk_score d =
     (let r0 = 0;
          r1 = (if age d < 25 then r0 + 15
                else if age d < 35 then r0 + 10
                else if age d < 50 then r0 + 5
                else r0);
          r2 = (if loan_to_income d > 5 then r1 + 25
                else if loan_to_income d > 3 then r1 + 15
                else if loan_to_income d > 2 then r1 + 10
                else r1);
          r3 = (if delinquency_ratio d > 50 then r2 + 30
                else if delinquency_ratio d > 30 then r2 + 20
                else if delinquency_ratio d > 10 then r2 + 10
                else r2);
          r4 = (if credit_utilization_ratio d > 80 then r3 + 20
                else if credit_utilization_ratio d > 50 then r3 + 10
                else if credit_utilization_ratio d > 30 then r3 + 5
                else r3);
          r5 = (if avg_dpd_per_delinquency d > 30 then r4 + 25
                else if avg_dpd_per_delinquency d > 15 then r4 + 15
                else if avg_dpd_per_delinquency d > 5 then r4 + 8
                else r4);
          r6 = (if num_open_accounts d > 3 then r5 + 10
                else if num_open_accounts d < 2 then r5 + 5
                else r5);
          r7 = (if residence_type d = ''Rented'' then r6 + 10
                else if residence_type d = ''Mortgage'' then r6 + 5
                else r6);
          r8 = (if loan_type d = ''Unsecured'' then r7 + 15 else r7)
      in r8)"

text \<open>The nested function \<open>get_rating\<close>.\<close>

definition get_rating :: "int \<Rightarrow> rating" where
  "get_rating score =
     (if 300 \<le> score \<and> score < 500 then Poor
      else if 500 \<le> score \<and> score < 650 then Average
      else if 650 \<le> score \<and> score < 750 then Good
      else if 750 \<le> score \<and> score \<le> 900 then Excellent
      else Undefined)"

definition calculate_credit_score :: "input_data \<Rightarrow> int \<Rightarrow> int \<Rightarrow> scoring_result" where
  "calculate_credit_score d base_score scale_length =
     (let default_probability = min (real_of_int (risk_score d) / 100) (99 / 100);
          non_default_probability = 1 - default_probability;
          credit_score = py_int (real_of_int base_score
                                 + non_default_probability * real_of_int scale_length);
          rating = get_rating credit_score
      in (default_probability, credit_score, rating))"

subsection \<open>The classifier bundle\<close>

text \<open>
  The module-level names \<open>model\<close>, \<open>scaler\<close>, \<open>features_list\<close> and \<open>cols_to_scale\<close>, set
  once when the module is loaded; all four are \<open>None\<close> when loading failed. The classifier
  and the rescaler are external objects, so they are parameters here:
  \<^item> \<open>model\<close> stands for \<open>float(model.predict_proba(features_df)[0][1])\<close>, a function of
    the selected feature values that returns a number or raises;
  \<^item> \<open>scaler\<close> stands for \<open>scaler.transform\<close>, a function of the values of the columns to
    scale that returns the new values or raises.
\<close>

record model_data =
  model :: "(real list \<Rightarrow> py_error + real) option"
  scaler :: "(real list \<Rightarrow> py_error + real list) option"
  features_list :: "string list option"
  cols_to_scale :: "string list option"

text \<open>The state after a failed load (the \<open>except\<close> branch at module level).\<close>

definition no_model :: model_data where
  "no_model = \<lparr> model = None, scaler = None, features_list = None, cols_to_scale = None \<rparr>"

subsection \<open>The model-backed path\<close>

text \<open>The dictionary \<open>full_data\<close>, in the order of the dict literal.\<close>

definition full_data ::
  "real \<Rightarrow> real \<Rightarrow> real \<Rightarrow> real \<Rightarrow> real \<Rightarrow> real \<Rightarrow> real \<Rightarrow> real \<Rightarrow>
   string \<Rightarrow> string \<Rightarrow> string \<Rightarrow> py_error + (string \<times> real) list" where
  "full_data ag inc la ten dpd dr cu noa res pur lt =
     (case guarded_ratio la inc of
        Inl e \<Rightarrow> Inl e
      | Inr ratio \<Rightarrow>
          Inr [(''age'', ag),
               (''income'', inc),
               (''loan_amount'', la),
               (''loan_tenure_months'', ten),
               (''number_of_open_accounts'', noa),
               (''credit_utilization_ratio'', cu),
               (''loan_to_income'', ratio),
               (''delinquency_ratio'', dr),
               (''avg_dpd_per_delinquency'', dpd),
               (''residence_type_Owned'', if res = ''Owned'' then 1 else 0),
               (''residence_type_Rented'', if res = ''Rented'' then 1 else 0),
               (''residence_type_Mortgage'', if res = ''Mortgage'' then 1 else 0),
               (''loan_purpose_Education'', if pur = ''Education'' then 1 else 0),
               (''loan_purpose_Home'', if pur = ''Home'' then 1 else 0),
               (''loan_purpose_Personal'', if pur = ''Personal'' then 1 else 0),
               (''loan_type_Secured'', if lt = ''Secured'' then 1 else 0),
               (''loan_type_Unsecured'', if lt = ''Unsecured'' then 1 else 0),
               (''number_of_dependants'', 2),
               (''years_at_current_address'', 3),
               (''zipcode'', 110001),
               (''sanction_amount'', la),
               (''processing_fee'', la * (2 / 100)),
               (''gst'', la * (2 / 100) * (18 / 100)),
               (''net_disbursement'', la * (98 / 100)),
               (''principal_outstanding'', la * (5 / 10)),
               (''bank_balance_at_application'', inc * (3 / 10)),
               (''number_of_closed_accounts'', 2),
               (''enquiry_count'', 1)])"

text \<open>
  The one-row DataFrame is the association list of its columns. Selecting a list of
  columns (\<open>df[cols]\<close>) raises \<open>KeyError\<close> when a column is missing.
\<close>

fun select_columns :: "(string \<times> real) list \<Rightarrow> string list \<Rightarrow> py_error + real list" where
  "select_columns df [] = Inr []"
| "select_columns df (c # cs) =
     (case map_of df c of
        None \<Rightarrow> Inl (KeyError c)
      | Some v \<Rightarrow>
          (case select_columns df cs of
             Inl e \<Rightarrow> Inl e
           | Inr vs \<Rightarrow> Inr (v # vs)))"

text \<open>Assigning to existing columns (\<open>df[cols] = values\<close>).\<close>

fun assign_columns ::
  "(string \<times> real) list \<Rightarrow> string list \<Rightarrow> real list \<Rightarrow> (string \<times> real) list" where
  "assign_columns df (c # cs) (v # vs) = assign_columns (AList.update c v df) cs vs"
| "assign_columns df _ _ = df"

text \<open>
  \<open>if scaler is not None and cols_to_scale is not None and len(cols_to_scale) > 0:
  df[cols_to_scale] = scaler.transform(df[cols_to_scale])\<close>. The assignment raises when
  the transform does not return one value per column.
\<close>

definition apply_scaling ::
  "(real list \<Rightarrow> py_error + real list) option \<Rightarrow> string list option \<Rightarrow>
   (string \<times> real) list \<Rightarrow> py_error + (string \<times> real) list" where
  "apply_scaling sc cols df =
     (case sc of
        None \<Rightarrow> Inr df
      | Some transform \<Rightarrow>
          (case cols of
             None \<Rightarrow> Inr df
           | Some cs \<Rightarrow>
               if length cs > 0 then
                 (case select_columns df cs of
                    Inl e \<Rightarrow> Inl e
                  | Inr vals \<Rightarrow>
                      (case transform vals of
                         Inl e \<Rightarrow> Inl e
                       | Inr scaled \<Rightarrow>
                           if length scaled = length cs
                           then Inr (assign_columns df cs scaled)
                           else Inl ValueError))
               else Inr df))"

text \<open>The rating of the model-backed path (its own chain of comparisons).\<close>

definition model_rating :: "int \<Rightarrow> rating" where
  "model_rating credit_score =
     (if credit_score \<ge> 750 then Excellent
      else if credit_score \<ge> 650 then Good
      else if credit_score \<ge> 500 then Average
      else Poor)"

text \<open>
  The body of the \<open>try\<close> block: \<open>Inl\<close> is an exception caught by the \<open>except\<close> clause,
  \<open>Inr\<close> is the triple returned from inside the block.
\<close>

definition model_backed_path ::
  "(real list \<Rightarrow> py_error + real) \<Rightarrow> (real list \<Rightarrow> py_error + real list) option \<Rightarrow>
   string list \<Rightarrow> string list option \<Rightarrow>
   real \<Rightarrow> real \<Rightarrow> real \<Rightarrow> real \<Rightarrow> real \<Rightarrow> real \<Rightarrow> real \<Rightarrow> real \<Rightarrow>
   string \<Rightarrow> string \<Rightarrow> string \<Rightarrow> py_error + scoring_result" where
  "model_backed_path m sc fs cols ag inc la ten dpd dr cu noa res pur lt =
     (case full_data ag inc la ten dpd dr cu noa res pur lt of
        Inl e \<Rightarrow> Inl e
      | Inr fd \<Rightarrow>
          (case apply_scaling sc cols fd of
             Inl e \<Rightarrow> Inl e
           | Inr df \<Rightarrow>
               (case select_columns df fs of
                  Inl e \<Rightarrow> Inl e
                | Inr features_df \<Rightarrow>
                    (case m features_df of
                       Inl e \<Rightarrow> Inl e
                     | Inr default_probability \<Rightarrow>
                         (let non_default_probability = 1 - default_probability;
                              credit_score = py_int (300 + non_default_probability * 600);
                              rating = model_rating credit_score
                          in Inr (default_probability, credit_score, rating))))))"

subsection \<open>predict\<close>

text \<open>
  \<open>prepare_input\<close> runs first, outside the \<open>try\<close>, so an error there would reach the
  caller. The model-backed path runs when \<open>model\<close> and \<open>features_list\<close> are set and the
  list is not empty; whatever it raises is swallowed and the heuristic runs instead.
\<close>

definition predict ::
  "model_data \<Rightarrow>
   real \<Rightarrow> real \<Rightarrow> real \<Rightarrow> real \<Rightarrow> real \<Rightarrow> real \<Rightarrow> real \<Rightarrow> real \<Rightarrow>
   string \<Rightarrow> string \<Rightarrow> string \<Rightarrow> py_error + scoring_result" where
  "predict md ag inc la ten dpd dr cu noa res pur lt =
     (case prepare_input ag inc la ten dpd dr cu noa res pur lt of
        Inl e \<Rightarrow> Inl e
      | Inr d \<Rightarrow>
          (case model md of
             None \<Rightarrow> Inr (calculate_credit_score d 300 600)
           | Some m \<Rightarrow>
               (case features_list md of
                  None \<Rightarrow> Inr (calculate_credit_score d 300 600)
                | Some fs \<Rightarrow>
                    if length fs > 0 then
                      (case model_backed_path m (scaler md) fs (cols_to_scale md)
                              ag inc la ten dpd dr cu noa res pur lt of
                         Inr r \<Rightarrow> Inr r
                       | Inl e \<Rightarrow> Inr (calculate_credit_score d 300 600))
                    else Inr (calculate_credit_score d 300 600))))"

subsection \<open>The reference definition of the heuristic (section 4.1 of the specification)\<close>

text \<open>
  These definitions follow the words of the specification, not the code: one contribution
  per attribute, each read off its table of bands, summed; then the probability, the
  score and the rating bands. They are compared with the code below.
\<close>

definition reference_age_points :: "real \<Rightarrow> int" where
  "reference_age_points a = (if a < 25 then 15 else if a < 35 then 10 else if a < 50 then 5 else 0)"

definition reference_loan_to_income_points :: "real \<Rightarrow> int" where
  "reference_loan_to_income_points x = (if x > 5 then 25 else if x > 3 then 15 else if x > 2 then 10 else 0)"

definition reference_delinquency_points :: "real \<Rightarrow> int" where
  "reference_delinquency_points x = (if x > 50 then 30 else if x > 30 then 20 else if x > 10 then 10 else 0)"

definition reference_utilization_points :: "real \<Rightarrow> int" where
  "reference_utilization_points x = (if x > 80 then 20 else if x > 50 then 10 else if x > 30 then 5 else 0)"

definition reference_dpd_points :: "real \<Rightarrow> int" where
  "reference_dpd_points x = (if x > 30 then 25 else if x > 15 then 15 else if x > 5 then 8 else 0)"

definition reference_open_accounts_points :: "real \<Rightarrow> int" where
  "reference_open_accounts_points x = (if x > 3 then 10 else if x < 2 then 5 else 0)"

definition reference_residence_points :: "string \<Rightarrow> int" where
  "reference_residence_points r = (if r = ''Rented'' then 10 else if r = ''Mortgage'' then 5 else 0)"

definition reference_loan_type_points :: "string \<Rightarrow> int" where
  "reference_loan_type_points t = (if t = ''Unsecured'' then 15 else 0)"

definition reference_risk_score :: "input_data \<Rightarrow> int" where
  "reference_risk_score d =
     reference_age_points (age d)
     + reference_loan_to_income_points (loan_to_income d)
     + reference_delinquency_points (delinquency_ratio d)
     + reference_utilization_points (credit_utilization_ratio d)
     + reference_dpd_points (avg_dpd_per_delinquency d)
     + reference_open_accounts_points (num_open_accounts d)
     + reference_residence_points (residence_type d)
     + reference_loan_type_points (loan_type d)"

definition reference_default_probability :: "input_data \<Rightarrow> real" where
  "reference_default_probability d = min (real_of_int (reference_risk_score d) / 100) (99 / 100)"

definition reference_credit_score :: "input_data \<Rightarrow> int" where
  "reference_credit_score d = py_int (300 + (1 - reference_default_probability d) * 600)"

text \<open>The four bands of the specification; it names no rating outside them.\<close>

definition reference_rating :: "int \<Rightarrow> rating option" where
  "reference_rating s =
     (if 300 \<le> s \<and> s < 500 then Some Poor
      else if 500 \<le> s \<and> s < 650 then Some Average
      else if 650 \<le> s \<and> s < 750 then Some Good
      else if 750 \<le> s \<and> s \<le> 900 then Some Excellent
      else None)"

subsection \<open>The order of the ratings\<close>

text \<open>Poor < Average < Good < Excellent; \<open>Undefined\<close> is not comparable with anything.\<close>

fun rating_rank :: "rating \<Rightarrow> nat" where
  "rating_rank Poor = 0"
| "rating_rank Average = 1"
| "rating_rank Good = 2"
| "rating_rank Excellent = 3"
| "rating_rank Undefined = 4"

definition rating_leq :: "rating \<Rightarrow> rating \<Rightarrow> bool" where
  "rating_leq r1 r2 = (r1 \<noteq> Undefined \<and> r2 \<noteq> Undefined \<and> rating_rank r1 \<le> rating_rank r2)"

subsection \<open>Classifiers\<close>

text \<open>A classifier whose positive-class probability, when it returns one, lies in [0, 1].\<close>

definition probability_classifier :: "(real list \<Rightarrow> py_error + real) \<Rightarrow> bool" where
  "probability_classifier m = (\<forall>xs p. m xs = Inr p \<longrightarrow> 0 \<le> p \<and> p \<le> 1)"

text \<open>The loaded classifier, if there is one, is such a classifier.\<close>

definition reports_probabilities :: "model_data \<Rightarrow> bool" where
  "reports_probabilities md =
     (case model md of None \<Rightarrow> True | Some m \<Rightarrow> probability_classifier m)"

text \<open>
  Two concrete bundles used as inputs below: a classifier that returns the same
  probability for every applicant, and a bundle whose feature list names a column that
  \<open>full_data\<close> does not have, so that selecting the features raises \<open>KeyError\<close>.
\<close>

definition constant_classifier :: "real \<Rightarrow> model_data" where
  "constant_classifier p =
     \<lparr> model = Some (\<lambda>xs. Inr p), scaler = None,
       features_list = Some [''age'', ''income'', ''loan_to_income''],
       cols_to_scale = None \<rparr>"

definition missing_column_bundle :: model_data where
  "missing_column_bundle =
     \<lparr> model = Some (\<lambda>xs. Inr (1 / 2)), scaler = None,
       features_list = Some [''age'', ''loan_purpose_Medical''],
       cols_to_scale = None \<rparr>"

section \<open>Properties\<close>

subsection \<open>Auxiliary facts\<close>

lemma band3: "(if c1 then r + a else if c2 then r + b else if c3 then r + c else r)
   = r + (if c1 then a else if c2 then b else if c3 then c else (0::int))"
  by simp

lemma band2: "(if c1 then r + a else if c2 then r + b else r)
   = r + (if c1 then a else if c2 then b else (0::int))"
  by simp

lemma band1: "(if c1 then r + a else r) = r + (if c1 then a else (0::int))"
  by simp

lemma risk_score_sum: "risk_score d = reference_risk_score d"
  unfolding risk_score_def reference_risk_score_def
    reference_age_points_def reference_loan_to_income_points_def reference_delinquency_points_def
    reference_utilization_points_def reference_dpd_points_def reference_open_accounts_points_def
    reference_residence_points_def reference_loan_type_points_def
  by (simp only: band3 band2 band1 Let_def) simp

lemma py_int_of_int: "py_int (real_of_int n) = n"
  by (simp add: py_int_def)

lemma credit_score_of_risk:
  "py_int (real_of_int 300 + (1 - min (real_of_int r / 100) (99 / 100)) * real_of_int 600)
     = (if r \<le> 99 then 900 - 6 * r else 306)"
proof (cases "r \<le> 99")
  case True
  then have "min (real_of_int r / 100) (99 / 100) = real_of_int r / 100" by simp
  then have "real_of_int 300 + (1 - min (real_of_int r / 100) (99 / 100)) * real_of_int 600
      = real_of_int (900 - 6 * r)" by simp
  then have "py_int (real_of_int 300 + (1 - min (real_of_int r / 100) (99 / 100)) * real_of_int 600)
      = py_int (real_of_int (900 - 6 * r))" by (simp only:)
  then show ?thesis using True by (simp only: py_int_of_int if_True)
next
  case False
  then have "min (real_of_int r / 100) (99 / 100) = 99 / 100" by simp
  then show ?thesis using False by (simp add: py_int_def)
qed


lemma reference_points_nonneg:
  "0 \<le> reference_age_points a" "0 \<le> reference_loan_to_income_points x"
  "0 \<le> reference_delinquency_points x" "0 \<le> reference_utilization_points x"
  "0 \<le> reference_dpd_points x" "0 \<le> reference_open_accounts_points x"
  "0 \<le> reference_residence_points s" "0 \<le> reference_loan_type_points s"
  by (simp_all add: reference_age_points_def reference_loan_to_income_points_def
      reference_delinquency_points_def reference_utilization_points_def reference_dpd_points_def
      reference_open_accounts_points_def reference_residence_points_def
      reference_loan_type_points_def)

lemma risk_score_nonneg: "0 \<le> risk_score d"
  unfolding risk_score_sum reference_risk_score_def
  by (intro add_nonneg_nonneg reference_points_nonneg)

lemma reference_points_mono:
  "x \<le> y \<Longrightarrow> reference_loan_to_income_points x \<le> reference_loan_to_income_points y"
  "x \<le> y \<Longrightarrow> reference_delinquency_points x \<le> reference_delinquency_points y"
  "x \<le> y \<Longrightarrow> reference_utilization_points x \<le> reference_utilization_points y"
  "x \<le> y \<Longrightarrow> reference_dpd_points x \<le> reference_dpd_points y"
  by (simp_all add: reference_loan_to_income_points_def
      reference_delinquency_points_def reference_utilization_points_def reference_dpd_points_def)

lemma calculate_credit_score_of_risk:
  "calculate_credit_score d 300 600 =
     (min (real_of_int (risk_score d) / 100) (99 / 100),
      (if risk_score d \<le> 99 then 900 - 6 * risk_score d else 306),
      get_rating (if risk_score d \<le> 99 then 900 - 6 * risk_score d else 306))"
  using credit_score_of_risk [of "risk_score d"]
  by (simp add: calculate_credit_score_def Let_def)

lemma heuristic_credit_score_bounds:
  "306 \<le> (if risk_score d \<le> 99 then 900 - 6 * risk_score d else 306)"
  "(if risk_score d \<le> 99 then 900 - 6 * risk_score d else 306) \<le> 900"
  using risk_score_nonneg [of d] by simp_all

lemma prepare_input_total:
  "prepare_input ag inc la ten dpd dr cu noa res pur lt =
     Inr \<lparr> age = ag, income = inc, loan_amount = la, loan_tenure_months = ten,
           avg_dpd_per_delinquency = dpd, delinquency_ratio = dr,
           credit_utilization_ratio = cu, num_open_accounts = noa,
           loan_to_income = (if 0 < inc then la / inc else 0),
           residence_type = res, loan_purpose = pur, loan_type = lt \<rparr>"
  by (simp add: prepare_input_def guarded_ratio_def py_truediv_def)

lemma predict_total: "\<exists>r. predict md ag inc la ten dpd dr cu noa res pur lt = Inr r"
proof -
  obtain d where "prepare_input ag inc la ten dpd dr cu noa res pur lt = Inr d"
    using prepare_input_total by blast
  then show ?thesis
    by (simp add: predict_def split: option.split sum.split del: split_paired_Ex)
qed

lemma predict_cases:
  assumes "prepare_input ag inc la ten dpd dr cu noa res pur lt = Inr d"
  shows "predict md ag inc la ten dpd dr cu noa res pur lt = Inr (calculate_credit_score d 300 600)
    \<or> (\<exists>m fs r. model md = Some m \<and> features_list md = Some fs
          \<and> model_backed_path m (scaler md) fs (cols_to_scale md)
               ag inc la ten dpd dr cu noa res pur lt = Inr r
          \<and> predict md ag inc la ten dpd dr cu noa res pur lt = Inr r)"
  using assms
  by (simp add: predict_def split: option.split sum.split del: split_paired_Ex)

lemma model_backed_path_result:
  assumes "model_backed_path m sc fs cols ag inc la ten dpd dr cu noa res pur lt = Inr (p, c, r)"
  shows "\<exists>xs. m xs = Inr p" "c = py_int (300 + (1 - p) * 600)" "r = model_rating c"
  using assms
  by (auto simp: model_backed_path_def Let_def split: sum.splits)

lemma py_int_unit_range:
  assumes "0 \<le> p" "p \<le> 1"
  shows "300 \<le> py_int (300 + (1 - p) * 600)" "py_int (300 + (1 - p) * 600) \<le> 900"
proof -
  have a: "(0::real) \<le> 300 + (1 - p) * 600" using assms by simp
  have "real_of_int 300 \<le> 300 + (1 - p) * 600" using assms by simp
  then have "300 \<le> \<lfloor>300 + (1 - p) * 600\<rfloor>" by (simp only: le_floor_iff)
  then show "300 \<le> py_int (300 + (1 - p) * 600)" using a by (simp add: py_int_def)
  have "300 + (1 - p) * 600 \<le> real_of_int 900" using assms by simp
  then have "\<lfloor>300 + (1 - p) * 600\<rfloor> \<le> 900" by (simp add: floor_le_iff)
  then show "py_int (300 + (1 - p) * 600) \<le> 900" using a by (simp add: py_int_def)
qed

lemma risk_score_fields:
  assumes "age d = age d'" "loan_to_income d = loan_to_income d'"
    "delinquency_ratio d = delinquency_ratio d'"
    "credit_utilization_ratio d = credit_utilization_ratio d'"
    "avg_dpd_per_delinquency d = avg_dpd_per_delinquency d'"
    "num_open_accounts d = num_open_accounts d'"
    "residence_type d = residence_type d'" "loan_type d = loan_type d'"
  shows "risk_score d = risk_score d'"
  using assms by (simp add: risk_score_sum reference_risk_score_def)

lemma calculate_credit_score_risk_only:
  "risk_score d = risk_score d' \<Longrightarrow>
     calculate_credit_score d b s = calculate_credit_score d' b s"
  by (simp add: calculate_credit_score_def)

lemma credit_of_risk_antitone:
  "0 \<le> r \<Longrightarrow> r \<le> r' \<Longrightarrow>
     (if r' \<le> 99 then 900 - 6 * r' else 306) \<le> (if r \<le> 99 then 900 - 6 * r else (306::int))"
  by simp

subsection \<open>The heuristic against its reference definition\<close>

text \<open>
  Claim C1. For every attribute set the heuristic computes the reference definition of
  section 4.1: its probability is the minimum of the summed band contributions over 100
  and 0.99, its score is 300 + (1 - probability) * 600 truncated to an integer, and its
  rating is the one the four bands of the specification give to that score.
\<close>

theorem heuristic_matches_reference:
  "\<exists>r. calculate_credit_score d 300 600
          = (reference_default_probability d, reference_credit_score d, r)
       \<and> reference_rating (reference_credit_score d) = Some r"
proof -
  let ?c = "if risk_score d \<le> 99 then 900 - 6 * risk_score d else 306"
  have c: "reference_credit_score d = ?c"
    using credit_score_of_risk [of "risk_score d"]
    by (simp add: reference_credit_score_def reference_default_probability_def
        risk_score_sum [symmetric])
  have p: "reference_default_probability d = min (real_of_int (risk_score d) / 100) (99 / 100)"
    by (simp add: reference_default_probability_def risk_score_sum)
  have r: "reference_rating ?c = Some (get_rating ?c)"
    using risk_score_nonneg [of d] by (simp add: reference_rating_def get_rating_def)
  show ?thesis
    unfolding calculate_credit_score_of_risk c p using r by blast
qed

subsection \<open>The two worked examples\<close>

text \<open>
  Claim C5. On the heuristic path the applicant aged 30 with income 500000, loan amount
  1000000, tenure 36, average DPD 2, delinquency ratio 5, utilization 20, 2 open accounts,
  an owned residence, purpose Personal and a secured loan gets risk score 10, default
  probability 0.10, credit score 840 and rating Excellent.
\<close>

theorem low_risk_example:
  "prepare_input 30 500000 1000000 36 2 5 20 2 ''Owned'' ''Personal'' ''Secured''
     = Inr \<lparr> age = 30, income = 500000, loan_amount = 1000000, loan_tenure_months = 36,
           avg_dpd_per_delinquency = 2, delinquency_ratio = 5,
           credit_utilization_ratio = 20, num_open_accounts = 2, loan_to_income = 2,
           residence_type = ''Owned'', loan_purpose = ''Personal'', loan_type = ''Secured'' \<rparr>
   \<and> risk_score
       \<lparr> age = 30, income = 500000, loan_amount = 1000000, loan_tenure_months = 36,
         avg_dpd_per_delinquency = 2, delinquency_ratio = 5,
         credit_utilization_ratio = 20, num_open_accounts = 2, loan_to_income = 2,
         residence_type = ''Owned'', loan_purpose = ''Personal'', loan_type = ''Secured'' \<rparr>
       = 10
   \<and> calculate_credit_score
       \<lparr> age = 30, income = 500000, loan_amount = 1000000, loan_tenure_months = 36,
         avg_dpd_per_delinquency = 2, delinquency_ratio = 5,
         credit_utilization_ratio = 20, num_open_accounts = 2, loan_to_income = 2,
         residence_type = ''Owned'', loan_purpose = ''Personal'', loan_type = ''Secured'' \<rparr>
       300 600
       = (1 / 10, 840, Excellent)"
  by (simp add: prepare_input_def guarded_ratio_def py_truediv_def risk_score_def
      calculate_credit_score_def get_rating_def py_int_def Let_def)

text \<open>
  Claim C4, as stated, fails. For the applicant aged 22 with income 300000, loan amount
  2000000, tenure 60, average DPD 40, delinquency ratio 60, utilization 90, 5 open
  accounts, a rented residence, purpose Medical and an unsecured loan, the credit
  score of the heuristic is not 300.
\<close>

theorem example_score_300_refuted:
  "prepare_input 22 300000 2000000 60 40 60 90 5 ''Rented'' ''Medical'' ''Unsecured''
     = Inr \<lparr> age = 22, income = 300000, loan_amount = 2000000, loan_tenure_months = 60,
           avg_dpd_per_delinquency = 40, delinquency_ratio = 60,
           credit_utilization_ratio = 90, num_open_accounts = 5, loan_to_income = 20 / 3,
           residence_type = ''Rented'', loan_purpose = ''Medical'', loan_type = ''Unsecured'' \<rparr>
   \<and> fst (snd (calculate_credit_score
       \<lparr> age = 22, income = 300000, loan_amount = 2000000, loan_tenure_months = 60,
         avg_dpd_per_delinquency = 40, delinquency_ratio = 60,
         credit_utilization_ratio = 90, num_open_accounts = 5, loan_to_income = 20 / 3,
         residence_type = ''Rented'', loan_purpose = ''Medical'', loan_type = ''Unsecured'' \<rparr>
       300 600)) \<noteq> 300"
  by (simp add: prepare_input_def guarded_ratio_def py_truediv_def risk_score_def
      calculate_credit_score_def get_rating_def py_int_def Let_def)

text \<open>
  Claim C4, amended. For that applicant the heuristic gives risk score
  15+25+30+20+25+10+10+15 = 150, default probability 0.99 (clamped), credit score 306
  and rating Poor.
\<close>

theorem high_risk_example:
  "prepare_input 22 300000 2000000 60 40 60 90 5 ''Rented'' ''Medical'' ''Unsecured''
     = Inr \<lparr> age = 22, income = 300000, loan_amount = 2000000, loan_tenure_months = 60,
           avg_dpd_per_delinquency = 40, delinquency_ratio = 60,
           credit_utilization_ratio = 90, num_open_accounts = 5, loan_to_income = 20 / 3,
           residence_type = ''Rented'', loan_purpose = ''Medical'', loan_type = ''Unsecured'' \<rparr>
   \<and> risk_score
       \<lparr> age = 22, income = 300000, loan_amount = 2000000, loan_tenure_months = 60,
         avg_dpd_per_delinquency = 40, delinquency_ratio = 60,
         credit_utilization_ratio = 90, num_open_accounts = 5, loan_to_income = 20 / 3,
         residence_type = ''Rented'', loan_purpose = ''Medical'', loan_type = ''Unsecured'' \<rparr>
       = 15 + 25 + 30 + 20 + 25 + 10 + 10 + 15
   \<and> calculate_credit_score
       \<lparr> age = 22, income = 300000, loan_amount = 2000000, loan_tenure_months = 60,
         avg_dpd_per_delinquency = 40, delinquency_ratio = 60,
         credit_utilization_ratio = 90, num_open_accounts = 5, loan_to_income = 20 / 3,
         residence_type = ''Rented'', loan_purpose = ''Medical'', loan_type = ''Unsecured'' \<rparr>
       300 600
       = (99 / 100, 306, Poor)"
  by (simp add: prepare_input_def guarded_ratio_def py_truediv_def risk_score_def
      calculate_credit_score_def get_rating_def py_int_def Let_def)

subsection \<open>The rating bands\<close>

text \<open>
  Claim C6. The rating is a function of the credit score alone, and it is monotone: for
  credit scores s1 \<le> s2 in [300, 900] the rating of s1 is below or equal to the rating
  of s2 in the order Poor < Average < Good < Excellent.
\<close>

theorem get_rating_monotone:
  "300 \<le> s1 \<Longrightarrow> s1 \<le> s2 \<Longrightarrow> s2 \<le> 900 \<Longrightarrow> rating_leq (get_rating s1) (get_rating s2)"
  by (simp add: get_rating_def rating_leq_def)

text \<open>The scores 499 and 500, on the two sides of a band boundary.\<close>

theorem get_rating_monotone_witness:
  "(300::int) \<le> 499 \<and> (499::int) \<le> 500 \<and> (500::int) \<le> 900
   \<and> get_rating 499 = Poor \<and> get_rating 500 = Average
   \<and> rating_leq (get_rating 499) (get_rating 500)"
  using get_rating_monotone [of 499 500] by (simp add: get_rating_def)

text \<open>
  Claim C8. On the heuristic path the credit score lies in [306, 900] for every attribute
  set, and the rating is one of Poor, Average, Good, Excellent, never Undefined.
\<close>

theorem heuristic_score_range:
  "\<exists>p c r. calculate_credit_score d 300 600 = (p, c, r) \<and> 306 \<le> c \<and> c \<le> 900
     \<and> (r = Poor \<or> r = Average \<or> r = Good \<or> r = Excellent) \<and> r \<noteq> Undefined"
  using risk_score_nonneg [of d]
  by (simp add: calculate_credit_score_of_risk get_rating_def)

subsection \<open>Failure of the model-backed path\<close>

text \<open>
  Claim C2. \<open>predict\<close> never hands an error to its caller, and whenever the model-backed
  path raises, whatever the error, \<open>predict\<close> returns exactly the triple that
  \<open>calculate_credit_score\<close> returns on the prepared input of the same attributes.
\<close>

theorem predict_falls_back_to_heuristic:
  "(\<exists>r. predict md ag inc la ten dpd dr cu noa res pur lt = Inr r)
   \<and> (model md = Some m \<and> features_list md = Some fs \<and> fs \<noteq> []
        \<and> model_backed_path m (scaler md) fs (cols_to_scale md)
             ag inc la ten dpd dr cu noa res pur lt = Inl e
      \<longrightarrow> (\<exists>d. prepare_input ag inc la ten dpd dr cu noa res pur lt = Inr d
             \<and> predict md ag inc la ten dpd dr cu noa res pur lt
                 = Inr (calculate_credit_score d 300 600)))"
proof -
  obtain d where d: "prepare_input ag inc la ten dpd dr cu noa res pur lt = Inr d"
    using prepare_input_total by blast
  show ?thesis
    using d predict_total [of md ag inc la ten dpd dr cu noa res pur lt]
    by (simp add: predict_def del: split_paired_Ex)
qed

text \<open>
  A feature list that names the column \<open>loan_purpose_Medical\<close>, which \<open>full_data\<close> does not
  build: the selection raises \<open>KeyError\<close> and the heuristic answers.
\<close>

theorem predict_falls_back_to_heuristic_witness:
  "model missing_column_bundle = Some (\<lambda>xs. Inr (1 / 2))
   \<and> features_list missing_column_bundle = Some [''age'', ''loan_purpose_Medical'']
   \<and> model_backed_path (\<lambda>xs. Inr (1 / 2)) (scaler missing_column_bundle)
        [''age'', ''loan_purpose_Medical''] (cols_to_scale missing_column_bundle)
        22 300000 2000000 60 40 60 90 5 ''Rented'' ''Medical'' ''Unsecured''
      = Inl (KeyError ''loan_purpose_Medical'')
   \<and> predict missing_column_bundle
        22 300000 2000000 60 40 60 90 5 ''Rented'' ''Medical'' ''Unsecured''
      = Inr (99 / 100, 306, Poor)"
proof -
  have a: "model missing_column_bundle = Some (\<lambda>xs. Inr (1 / 2))"
    and b: "features_list missing_column_bundle = Some [''age'', ''loan_purpose_Medical'']"
    by (simp_all add: missing_column_bundle_def)
  have c: "model_backed_path (\<lambda>xs. Inr (1 / 2)) (scaler missing_column_bundle)
        [''age'', ''loan_purpose_Medical''] (cols_to_scale missing_column_bundle)
        22 300000 2000000 60 40 60 90 5 ''Rented'' ''Medical'' ''Unsecured''
      = Inl (KeyError ''loan_purpose_Medical'')"
    by (simp add: missing_column_bundle_def model_backed_path_def full_data_def
        guarded_ratio_def py_truediv_def apply_scaling_def)
  have p: "prepare_input 22 300000 2000000 60 40 60 90 5 ''Rented'' ''Medical'' ''Unsecured''
     = Inr \<lparr> age = 22, income = 300000, loan_amount = 2000000, loan_tenure_months = 60,
           avg_dpd_per_delinquency = 40, delinquency_ratio = 60,
           credit_utilization_ratio = 90, num_open_accounts = 5, loan_to_income = 20 / 3,
           residence_type = ''Rented'', loan_purpose = ''Medical'', loan_type = ''Unsecured'' \<rparr>"
    by (simp add: prepare_input_def guarded_ratio_def py_truediv_def)
  have h: "calculate_credit_score
       \<lparr> age = 22, income = 300000, loan_amount = 2000000, loan_tenure_months = 60,
         avg_dpd_per_delinquency = 40, delinquency_ratio = 60,
         credit_utilization_ratio = 90, num_open_accounts = 5, loan_to_income = 20 / 3,
         residence_type = ''Rented'', loan_purpose = ''Medical'', loan_type = ''Unsecured'' \<rparr>
       300 600 = (99 / 100, 306, Poor)"
    by (simp add: risk_score_def calculate_credit_score_def get_rating_def py_int_def Let_def)
  from predict_falls_back_to_heuristic
         [of missing_column_bundle 22 300000 2000000 60 40 60 90 5 "''Rented''" "''Medical''"
            "''Unsecured''" "\<lambda>xs. Inr (1 / 2)" "[''age'', ''loan_purpose_Medical'']"
            "KeyError ''loan_purpose_Medical''"]
  have "predict missing_column_bundle
        22 300000 2000000 60 40 60 90 5 ''Rented'' ''Medical'' ''Unsecured''
      = Inr (99 / 100, 306, Poor)"
    using a b c p h by simp
  with a b c show ?thesis by simp
qed

subsection \<open>Ranges of the result\<close>

text \<open>
  Claim C3, as stated, fails on the model-backed path: a classifier that reports the
  probability 0.995 makes \<open>predict\<close> return that probability, which is above 0.99.
\<close>

theorem model_probability_above_cap:
  "predict (constant_classifier (199 / 200))
     30 500000 1000000 36 2 5 20 2 ''Owned'' ''Personal'' ''Secured''
     = Inr (199 / 200, 303, Poor)
   \<and> \<not> (199 / 200 \<le> (99 / 100 :: real))"
  by (simp add: predict_def prepare_input_def guarded_ratio_def py_truediv_def
      constant_classifier_def model_backed_path_def full_data_def apply_scaling_def
      model_rating_def py_int_def Let_def)

text \<open>
  Claim C3, amended. When the classifier, if there is one, reports probabilities in
  [0, 1], the result of \<open>predict\<close> has 300 \<le> credit_score \<le> 900 and
  0 \<le> default_probability \<le> 1; and default_probability \<le> 0.99 unless the triple was
  produced by the model-backed path.
\<close>

theorem predict_result_ranges:
  assumes "reports_probabilities md"
  shows "\<exists>p c r. predict md ag inc la ten dpd dr cu noa res pur lt = Inr (p, c, r)
           \<and> 300 \<le> c \<and> c \<le> 900 \<and> 0 \<le> p \<and> p \<le> 1
           \<and> (p \<le> 99 / 100
              \<or> (\<exists>m fs. model md = Some m \<and> features_list md = Some fs
                    \<and> model_backed_path m (scaler md) fs (cols_to_scale md)
                         ag inc la ten dpd dr cu noa res pur lt = Inr (p, c, r)))"
proof -
  obtain d where d: "prepare_input ag inc la ten dpd dr cu noa res pur lt = Inr d"
    using prepare_input_total by blast
  let ?P = "predict md ag inc la ten dpd dr cu noa res pur lt"
  from predict_cases [OF d, of md]
  consider (heur) "?P = Inr (calculate_credit_score d 300 600)"
    | (mod) m fs r where "model md = Some m" "features_list md = Some fs"
        "model_backed_path m (scaler md) fs (cols_to_scale md)
           ag inc la ten dpd dr cu noa res pur lt = Inr r" "?P = Inr r"
    by blast
  then show ?thesis
  proof cases
    case heur
    have "0 \<le> min (real_of_int (risk_score d) / 100) (99 / 100)"
      using risk_score_nonneg [of d] by simp
    moreover have "min (real_of_int (risk_score d) / 100) (99 / 100) \<le> 99 / 100" by simp
    ultimately show ?thesis
      using heur heuristic_credit_score_bounds [of d]
      by (simp add: calculate_credit_score_of_risk)
  next
    case mod
    obtain p c rt where r: "r = (p, c, rt)" by (cases r) auto
    from mod(3) r have mp: "model_backed_path m (scaler md) fs (cols_to_scale md)
           ag inc la ten dpd dr cu noa res pur lt = Inr (p, c, rt)" by simp
    from model_backed_path_result(1) [OF mp] obtain xs where xs: "m xs = Inr p" by blast
    from model_backed_path_result(2) [OF mp] have c: "c = py_int (300 + (1 - p) * 600)" .
    from assms mod(1) xs have p: "0 \<le> p" "p \<le> 1"
      by (auto simp: reports_probabilities_def probability_classifier_def)
    from py_int_unit_range [OF p] c have "300 \<le> c" "c \<le> 900" by simp_all
    with p mod r show ?thesis by auto
  qed
qed

text \<open>The classifier that always reports 0.995.\<close>

theorem predict_result_ranges_witness:
  "reports_probabilities (constant_classifier (199 / 200))
   \<and> predict (constant_classifier (199 / 200))
         30 500000 1000000 36 2 5 20 2 ''Owned'' ''Personal'' ''Secured''
       = Inr (199 / 200, 303, Poor)
   \<and> (\<exists>p c r. predict (constant_classifier (199 / 200))
                 30 500000 1000000 36 2 5 20 2 ''Owned'' ''Personal'' ''Secured'' = Inr (p, c, r)
           \<and> 300 \<le> c \<and> c \<le> 900 \<and> 0 \<le> p \<and> p \<le> 1
           \<and> (p \<le> 99 / 100
              \<or> (\<exists>m fs. model (constant_classifier (199 / 200)) = Some m
                    \<and> features_list (constant_classifier (199 / 200)) = Some fs
                    \<and> model_backed_path m (scaler (constant_classifier (199 / 200))) fs
                         (cols_to_scale (constant_classifier (199 / 200)))
                         30 500000 1000000 36 2 5 20 2 ''Owned'' ''Personal'' ''Secured''
                       = Inr (p, c, r))))"
proof -
  have h: "reports_probabilities (constant_classifier (199 / 200))"
    by (simp add: reports_probabilities_def constant_classifier_def probability_classifier_def)
  have v: "predict (constant_classifier (199 / 200))
         30 500000 1000000 36 2 5 20 2 ''Owned'' ''Personal'' ''Secured''
       = Inr (199 / 200, 303, Poor)"
    by (simp add: predict_def prepare_input_def guarded_ratio_def py_truediv_def
        constant_classifier_def model_backed_path_def full_data_def apply_scaling_def
        model_rating_def py_int_def Let_def)
  from predict_result_ranges [OF h, of 30 500000 1000000 36 2 5 20 2 "''Owned''" "''Personal''"
      "''Secured''"] h v
  show ?thesis by blast
qed

subsection \<open>The guard on income\<close>

text \<open>
  Claim C7. The evaluator never fails: \<open>prepare_input\<close> always returns its dictionary,
  with loan_to_income equal to loan_amount / income when income is positive and to 0
  otherwise (so no division by zero), and \<open>predict\<close> always returns a result.
\<close>

theorem income_guard:
  "(\<exists>d. prepare_input ag inc la ten dpd dr cu noa res pur lt = Inr d
        \<and> loan_to_income d = (if 0 < inc then la / inc else 0)
        \<and> (inc \<le> 0 \<longrightarrow> loan_to_income d = 0))
   \<and> (\<exists>r. predict md ag inc la ten dpd dr cu noa res pur lt = Inr r)"
  using predict_total [of md ag inc la ten dpd dr cu noa res pur lt]
  by (simp add: prepare_input_total del: split_paired_Ex)

text \<open>An applicant with income 0.\<close>

theorem income_guard_witness:
  "(0::real) \<le> 0
   \<and> (\<exists>d. prepare_input 30 0 1000000 36 2 5 20 2 ''Owned'' ''Personal'' ''Secured'' = Inr d
        \<and> loan_to_income d = 0)
   \<and> (\<exists>r. predict no_model 30 0 1000000 36 2 5 20 2 ''Owned'' ''Personal'' ''Secured'' = Inr r)"
  using income_guard [of 30 0 1000000 36 2 5 20 2 "''Owned''" "''Personal''" "''Secured''" no_model]
  by (simp del: split_paired_Ex)

subsection \<open>What the heuristic depends on\<close>

text \<open>
  Claim C9. The heuristic path does not depend on loan_tenure_months or loan_purpose: two
  attribute sets that differ at most in these two fields get the same triple.
\<close>

theorem heuristic_ignores_tenure_and_purpose:
  "(\<exists>d d'. prepare_input ag inc la ten dpd dr cu noa res pur lt = Inr d
        \<and> prepare_input ag inc la ten' dpd dr cu noa res pur' lt = Inr d'
        \<and> calculate_credit_score d 300 600 = calculate_credit_score d' 300 600)
   \<and> calculate_credit_score (d0\<lparr>loan_tenure_months := t, loan_purpose := q\<rparr>) b s
       = calculate_credit_score d0 b s
   \<and> predict no_model ag inc la ten dpd dr cu noa res pur lt
       = predict no_model ag inc la ten' dpd dr cu noa res pur' lt"
proof -
  let ?d = "\<lparr> age = ag, income = inc, loan_amount = la, loan_tenure_months = ten,
           avg_dpd_per_delinquency = dpd, delinquency_ratio = dr,
           credit_utilization_ratio = cu, num_open_accounts = noa,
           loan_to_income = (if 0 < inc then la / inc else 0),
           residence_type = res, loan_purpose = pur, loan_type = lt \<rparr>"
  let ?d' = "\<lparr> age = ag, income = inc, loan_amount = la, loan_tenure_months = ten',
           avg_dpd_per_delinquency = dpd, delinquency_ratio = dr,
           credit_utilization_ratio = cu, num_open_accounts = noa,
           loan_to_income = (if 0 < inc then la / inc else 0),
           residence_type = res, loan_purpose = pur', loan_type = lt \<rparr>"
  have "risk_score ?d = risk_score ?d'"
    by (rule risk_score_fields) simp_all
  then have e: "calculate_credit_score ?d 300 600 = calculate_credit_score ?d' 300 600"
    by (rule calculate_credit_score_risk_only)
  have "risk_score (d0\<lparr>loan_tenure_months := t, loan_purpose := q\<rparr>) = risk_score d0"
    by (rule risk_score_fields) simp_all
  then have u: "calculate_credit_score (d0\<lparr>loan_tenure_months := t, loan_purpose := q\<rparr>) b s
       = calculate_credit_score d0 b s"
    by (rule calculate_credit_score_risk_only)
  have n: "predict no_model ag inc la ten dpd dr cu noa res pur lt
       = predict no_model ag inc la ten' dpd dr cu noa res pur' lt"
    using e by (simp add: predict_def no_model_def prepare_input_total)
  show ?thesis
    using e u n by (simp add: prepare_input_total)
qed

text \<open>
  Claim C10. The heuristic path is monotone in the pure risk attributes: with the other
  attributes fixed and income positive, raising delinquency_ratio,
  credit_utilization_ratio, avg_dpd_per_delinquency or loan_amount (hence
  loan_to_income) never lowers default_probability and never raises credit_score.
\<close>

theorem heuristic_monotone_in_risk_attributes:
  assumes "dr \<le> dr'" "cu \<le> cu'" "dpd \<le> dpd'" "la \<le> la'" "0 < inc"
  shows "\<exists>d d' p c r p' c' r'.
           prepare_input ag inc la ten dpd dr cu noa res pur lt = Inr d
         \<and> prepare_input ag inc la' ten dpd' dr' cu' noa res pur lt = Inr d'
         \<and> calculate_credit_score d 300 600 = (p, c, r)
         \<and> calculate_credit_score d' 300 600 = (p', c', r')
         \<and> p \<le> p' \<and> c' \<le> c"
proof -
  let ?d = "\<lparr> age = ag, income = inc, loan_amount = la, loan_tenure_months = ten,
           avg_dpd_per_delinquency = dpd, delinquency_ratio = dr,
           credit_utilization_ratio = cu, num_open_accounts = noa,
           loan_to_income = la / inc,
           residence_type = res, loan_purpose = pur, loan_type = lt \<rparr>"
  let ?d' = "\<lparr> age = ag, income = inc, loan_amount = la', loan_tenure_months = ten,
           avg_dpd_per_delinquency = dpd', delinquency_ratio = dr',
           credit_utilization_ratio = cu', num_open_accounts = noa,
           loan_to_income = la' / inc,
           residence_type = res, loan_purpose = pur, loan_type = lt \<rparr>"
  have d: "prepare_input ag inc la ten dpd dr cu noa res pur lt = Inr ?d"
    and d': "prepare_input ag inc la' ten dpd' dr' cu' noa res pur lt = Inr ?d'"
    using assms(5) by (simp_all add: prepare_input_total)
  have ratio: "la / inc \<le> la' / inc"
    using assms(4,5) by (simp add: divide_right_mono)
  have risk: "risk_score ?d \<le> risk_score ?d'"
    unfolding risk_score_sum reference_risk_score_def
    using reference_points_mono(1) [OF ratio] reference_points_mono(2) [OF assms(1)]
      reference_points_mono(3) [OF assms(2)] reference_points_mono(4) [OF assms(3)]
    by simp
  have p: "min (real_of_int (risk_score ?d) / 100) (99 / 100)
      \<le> min (real_of_int (risk_score ?d') / 100) (99 / 100)"
    using risk by (intro min.mono) simp_all
  have c: "(if risk_score ?d' \<le> 99 then 900 - 6 * risk_score ?d' else 306)
      \<le> (if risk_score ?d \<le> 99 then 900 - 6 * risk_score ?d else 306)"
    by (rule credit_of_risk_antitone [OF risk_score_nonneg risk])
  show ?thesis
    unfolding d d' using p c
    by (simp only: calculate_credit_score_of_risk sum.inject prod.inject simp_thms ex_simps)
      blast
qed

text \<open>Raising all four at once, from the low-risk example.\<close>

theorem heuristic_monotone_in_risk_attributes_witness:
  "(5::real) \<le> 60 \<and> (20::real) \<le> 90 \<and> (2::real) \<le> 40 \<and> (1000000::real) \<le> 3000000
   \<and> (0::real) < 500000
   \<and> (\<exists>d d' p c r p' c' r'.
           prepare_input 30 500000 1000000 36 2 5 20 2 ''Owned'' ''Personal'' ''Secured'' = Inr d
         \<and> prepare_input 30 500000 3000000 36 40 60 90 2 ''Owned'' ''Personal'' ''Secured'' = Inr d'
         \<and> calculate_credit_score d 300 600 = (p, c, r)
         \<and> calculate_credit_score d' 300 600 = (p', c', r')
         \<and> p \<le> p' \<and> c' \<le> c)"
  using heuristic_monotone_in_risk_attributes
    [of 5 60 20 90 2 40 1000000 3000000 500000 30 36 2 "''Owned''" "''Personal''" "''Secured''"]
  by simp

end
